theory Spec2Isabelle
  imports Main
begin

section \<open>The base contract of 3D detection models\<close>

text \<open>
  A shallow embedding of \<^verbatim>\<open>paddle3d/models/base/base_detection.py\<close>: the class
  \<^verbatim>\<open>BaseDetectionModel\<close>, its computed properties, the forward dispatch, the
  propagation of the export flag over the sublayers and the export procedure.

  Python objects live in a store: an address names an object, and the attributes that the
  class reads and writes (\<^verbatim>\<open>in_export_mode\<close>, \<^verbatim>\<open>training\<close>) are fields of the
  object stored there. The module structure is a tree of addresses.
\<close>

subsection \<open>Data\<close>

type_synonym addr = nat

text \<open>The two mutable attributes of a layer object that the class touches.\<close>

record layer_obj =
  in_export_mode :: bool
  training :: bool

text \<open>A layer and its registered sublayers (\<^verbatim>\<open>self._sub_layers\<close>), by address.\<close>

datatype layer = Layer (ident: addr) (sub_layers: "layer list")

type_synonym store = "addr \<Rightarrow> layer_obj"

text \<open>Exceptions, as values.\<close>

datatype error = TypeError | OtherError string

text \<open>
  An entry of \<^verbatim>\<open>inputs\<close> and of \<^verbatim>\<open>outputs\<close>: a dict with the keys
  \<^verbatim>\<open>name\<close>, \<^verbatim>\<open>dtype\<close> and \<^verbatim>\<open>shape\<close>.
\<close>

record tensor_desc =
  name :: string
  dtype :: string
  shape :: "int list"

text \<open>
  What the class takes from the language and from the framework, as parameters:
  \<^item> \<^verbatim>\<open>str.lower\<close>, which follows the case tables of Unicode;
  \<^item> the checks that \<^verbatim>\<open>paddle.static.InputSpec\<close> makes on its arguments: the dtype
    must be a name the framework knows (\<^verbatim>\<open>TypeError\<close> otherwise), and what else the
    framework's version checks. The answer is the exception raised, if any.
  A Python string is the list of the bytes of its UTF-8 form.
\<close>

record platform =
  str_lower :: "string \<Rightarrow> string"
  spec_check :: "tensor_desc \<Rightarrow> error option"

text \<open>
  The framework's \<^verbatim>\<open>paddle.static.InputSpec(shape, dtype='float32', name=None,
  stop_gradient=False)\<close>. Its \<^verbatim>\<open>_verify\<close> goes through the shape and replaces
  every dimension below \<^verbatim>\<open>-1\<close> by \<^verbatim>\<open>-1\<close>, assigning into the list it was
  given; the object holds the shape so rewritten and the other arguments. Dimensions are
  integers here (a dimension \<^verbatim>\<open>None\<close> would be rewritten the same way).
\<close>

record input_spec_obj =
  spec_shape :: "int list"
  spec_dtype :: string
  spec_name :: "string option"
  stop_gradient :: bool

definition InputSpec_verify :: "int list \<Rightarrow> int list" where
  "InputSpec_verify shp = map (\<lambda>ele. if ele < -1 then -1 else ele) shp"

definition InputSpec :: "int list \<Rightarrow> string \<Rightarrow> string option \<Rightarrow> input_spec_obj" where
  "InputSpec shp dt nm =
     \<lparr>spec_shape = InputSpec_verify shp, spec_dtype = dt, spec_name = nm,
      stop_gradient = False\<rparr>"

text \<open>
  An entry after \<^verbatim>\<open>_verify\<close> has gone through its shape: the list is the entry's
  own, so the entry has changed where a dimension was below \<^verbatim>\<open>-1\<close>.
\<close>

definition verified :: "tensor_desc \<Rightarrow> tensor_desc" where
  "verified e = e\<lparr>shape := InputSpec_verify (shape e)\<rparr>"

text \<open>The object that \<^verbatim>\<open>InputSpec(**_input)\<close> builds when it returns.\<close>

definition entry_spec :: "tensor_desc \<Rightarrow> input_spec_obj" where
  "entry_spec e = InputSpec (shape e) (dtype e) (Some (name e))"

text \<open>
  \<^verbatim>\<open>InputSpec(**_input)\<close>: every key of the entry is passed as a keyword argument,
  \<^verbatim>\<open>name\<close> included. The shape is rewritten first, then the dtype is looked up.
  The result is the object or the exception, and the entry as the call leaves it. The
  checks do not depend on what the rewriting changes, so they are asked about the entry
  as rewritten.
\<close>

definition InputSpec_kwargs ::
  "platform \<Rightarrow> tensor_desc \<Rightarrow> (error + input_spec_obj) \<times> tensor_desc" where
  "InputSpec_kwargs pf e =
     (case spec_check pf (verified e) of
        Some err \<Rightarrow> (Inl err, verified e)
      | None \<Rightarrow> (Inr (entry_spec e), verified e))"

text \<open>
  A Python dict, in insertion order: assigning to a key that is present replaces its value
  in place, assigning to a new key appends it.
\<close>

type_synonym ('k, 'v) dict = "('k \<times> 'v) list"

fun dict_set :: "'k \<Rightarrow> 'v \<Rightarrow> ('k, 'v) dict \<Rightarrow> ('k, 'v) dict" where
  "dict_set k v [] = [(k, v)]"
| "dict_set k v ((k', v') # d) =
     (if k' = k then (k', v) # d else (k', v') # dict_set k v d)"

definition dict_get :: "('k, 'v) dict \<Rightarrow> 'k \<Rightarrow> 'v option" where
  "dict_get d k = map_of d k"

text \<open>
  A concrete model: the constructor argument, the name of its class, and the members that
  a subclass supplies. \<^verbatim>\<open>'s\<close> is the type of samples, \<^verbatim>\<open>'r\<close> of results.
\<close>

record ('s, 'r) model =
  box_with_velocity :: bool
  class_name :: string
  inputs :: "tensor_desc list"
  sensor :: string
  test_forward :: "'s \<Rightarrow> 'r"
  train_forward :: "'s \<Rightarrow> 'r"
  export_forward :: "'s \<Rightarrow> 'r"

text \<open>
  What a run can be observed to do: which of the subclass's forward methods ran, and the
  calls to the framework's exporter with their arguments.
\<close>

datatype call =
    ExportForward
  | TrainForward
  | TestForward
  | ToStatic "(string, input_spec_obj) dict list"
  | JitSave string "(string, input_spec_obj) dict list list"

text \<open>
  The state of a run: the module tree of the model (the model itself at the root), the
  store of layer objects, and the calls made so far.
\<close>

record world =
  root :: layer
  heap :: store
  calls :: "call list"

subsection \<open>Computed properties\<close>

text \<open>
  The dict comprehension of \<^verbatim>\<open>input_spec\<close>, from the dict built so far: for each
  entry in order the key, then the value, then the assignment. An exception ends it. The
  second component is the list of entries as the comprehension leaves them.
\<close>

fun spec_data ::
  "platform \<Rightarrow> tensor_desc list \<Rightarrow> (string, input_spec_obj) dict \<Rightarrow>
     (error + (string, input_spec_obj) dict) \<times> tensor_desc list" where
  "spec_data pf [] d = (Inr d, [])"
| "spec_data pf (e # es) d =
     (case InputSpec_kwargs pf e of
        (Inl err, e') \<Rightarrow> (Inl err, e' # es)
      | (Inr v, e') \<Rightarrow>
          (case spec_data pf es (dict_set (name e) v d) of (r, es') \<Rightarrow> (r, e' # es')))"

text \<open>
  \<^verbatim>\<open>input_spec\<close>: the list of the one dict, or the exception; and the entries that
  \<^verbatim>\<open>self.inputs\<close> returned, as the call leaves them.
\<close>

definition input_spec ::
  "platform \<Rightarrow> ('s, 'r) model \<Rightarrow>
     (error + (string, input_spec_obj) dict list) \<times> tensor_desc list" where
  "input_spec pf m =
     (case spec_data pf (inputs m) [] of
        (Inl err, es') \<Rightarrow> (Inl err, es')
      | (Inr data, es') \<Rightarrow> (Inr [data], es'))"

definition outputs :: "('s, 'r) model \<Rightarrow> tensor_desc list" where
  "outputs m =
     (let boxdim = (if \<not> box_with_velocity m then 7 else 9);
          box3ds = \<lparr>name = ''box3d'', dtype = ''float32'', shape = [-1, boxdim]\<rparr>;
          labels = \<lparr>name = ''label'', dtype = ''int32'', shape = [-1]\<rparr>;
          confidences = \<lparr>name = ''confidence'', dtype = ''float32'', shape = [-1]\<rparr>
      in [box3ds, labels, confidences])"

subsection \<open>Forward dispatch\<close>

definition self_obj :: "world \<Rightarrow> layer_obj" where
  "self_obj w = heap w (ident (root w))"

definition forward :: "('s, 'r) model \<Rightarrow> 's \<Rightarrow> world \<Rightarrow> 'r \<times> world" where
  "forward m samples w =
     (if in_export_mode (self_obj w)
        then (export_forward m samples, w\<lparr>calls := calls w @ [ExportForward]\<rparr>)
      else if training (self_obj w)
        then (train_forward m samples, w\<lparr>calls := calls w @ [TrainForward]\<rparr>)
      else (test_forward m samples, w\<lparr>calls := calls w @ [TestForward]\<rparr>))"

subsection \<open>Export mode over the module tree\<close>

text \<open>
  The framework's \<^verbatim>\<open>Layer.sublayers(include_self=True)\<close>: the layer first, then
  its sublayers in registration order, depth first; a set of the layers already listed
  keeps an object that is registered twice from being listed twice. The list built so far
  serves as that set.
\<close>

fun named_sublayers :: "layer \<Rightarrow> addr list \<Rightarrow> addr list" where
  "named_sublayers (Layer a subs) seen =
     fold named_sublayers subs (if a \<in> set seen then seen else seen @ [a])"

definition sublayers :: "layer \<Rightarrow> addr list" where
  "sublayers l = named_sublayers l []"

text \<open>\<^verbatim>\<open>sublayer.in_export_mode = mode\<close> on the object at an address.\<close>

definition set_attr_in_export_mode :: "bool \<Rightarrow> addr \<Rightarrow> store \<Rightarrow> store" where
  "set_attr_in_export_mode mode a h = h(a := (h a)\<lparr>in_export_mode := mode\<rparr>)"

definition set_export_mode :: "bool \<Rightarrow> world \<Rightarrow> world" where
  "set_export_mode mode w =
     w\<lparr>heap := fold (set_attr_in_export_mode mode) (sublayers (root w)) (heap w)\<rparr>"

text \<open>
  The context manager \<^verbatim>\<open>exporting\<close>, applied to the body of a \<^verbatim>\<open>with\<close>
  statement. The generator sets the flag and yields; when the body returns, the generator
  is resumed and clears the flag; when the body raises, the exception is thrown into the
  generator at its \<^verbatim>\<open>yield\<close>, which has no handler around it, so the generator ends
  there and the exception goes on to the caller.
\<close>

definition exporting ::
  "(world \<Rightarrow> (error + 'a) \<times> world) \<Rightarrow> world \<Rightarrow> (error + 'a) \<times> world" where
  "exporting body w =
     (case body (set_export_mode True w) of
        (Inl e, w') \<Rightarrow> (Inl e, w')
      | (Inr v, w') \<Rightarrow> (Inr v, set_export_mode False w'))"

subsection \<open>Export\<close>

definition save_name :: "platform \<Rightarrow> ('s, 'r) model \<Rightarrow> string" where
  "save_name pf m = str_lower pf (class_name m)"

text \<open>\<^verbatim>\<open>os.path.join\<close> of two components, on a POSIX system.\<close>

definition path_join :: "string \<Rightarrow> string \<Rightarrow> string" where
  "path_join a p =
     (if p \<noteq> [] \<and> hd p = CHR ''/'' then p
      else if a = [] \<or> last a = CHR ''/'' then a @ p
      else a @ ''/'' @ p)"

text \<open>
  \<^verbatim>\<open>name or self.save_name\<close>: Python's \<^verbatim>\<open>or\<close> yields its right operand when
  the left one is falsy, which \<^verbatim>\<open>None\<close> and the empty string both are.
\<close>

definition resolve_name :: "platform \<Rightarrow> ('s, 'r) model \<Rightarrow> string option \<Rightarrow> string" where
  "resolve_name pf m name_arg =
     (case name_arg of
        None \<Rightarrow> save_name pf m
      | Some n \<Rightarrow> if n = [] then save_name pf m else n)"

text \<open>
  The framework's exporter is a parameter: given the call and the current tree and store,
  it either raises or returns, and may change the tree and the store.
\<close>

type_synonym exporter = "call \<Rightarrow> layer \<times> store \<Rightarrow> error option \<times> layer \<times> store"

definition invoke :: "exporter \<Rightarrow> call \<Rightarrow> world \<Rightarrow> (error + unit) \<times> world" where
  "invoke ext c w =
     (case ext c (root w, heap w) of
        (r, t, h) \<Rightarrow>
          ((case r of Some e \<Rightarrow> Inl e | None \<Rightarrow> Inr ()),
           \<lparr>root = t, heap = h, calls = calls w @ [c]\<rparr>))"

text \<open>
  The body of the \<^verbatim>\<open>with\<close> statement of \<^verbatim>\<open>export\<close>. Each of the two calls
  evaluates \<^verbatim>\<open>self.input_spec\<close> first, which may raise. The property
  \<^verbatim>\<open>inputs\<close> is read at each evaluation; a second evaluation gives the same whether
  the subclass builds its entries anew or hands out the ones the first evaluation has
  rewritten.
\<close>

definition export_body ::
  "platform \<Rightarrow> exporter \<Rightarrow> ('s, 'r) model \<Rightarrow> string \<Rightarrow> string \<Rightarrow> world \<Rightarrow>
     (error + unit) \<times> world" where
  "export_body pf ext m save_dir nm w =
     (case fst (input_spec pf m) of
        Inl e \<Rightarrow> (Inl e, w)
      | Inr spec \<Rightarrow>
          (case invoke ext (ToStatic spec) w of
             (Inl e, w') \<Rightarrow> (Inl e, w')
           | (Inr _, w') \<Rightarrow>
               (case fst (input_spec pf m) of
                  Inl e \<Rightarrow> (Inl e, w')
                | Inr spec' \<Rightarrow> invoke ext (JitSave (path_join save_dir nm) [spec']) w')))"

definition export ::
  "platform \<Rightarrow> exporter \<Rightarrow> ('s, 'r) model \<Rightarrow> string \<Rightarrow> string option \<Rightarrow> world \<Rightarrow>
     (error + unit) \<times> world" where
  "export pf ext m save_dir name_arg w =
     (let nm = resolve_name pf m name_arg
      in exporting (export_body pf ext m save_dir nm) w)"

subsection \<open>Abstract members\<close>

text \<open>
  The members that the class body declares with \<^verbatim>\<open>abc.abstractproperty\<close> and
  \<^verbatim>\<open>abc.abstractmethod\<close>, in the order of the source.
\<close>

definition abstract_members :: "string list" where
  "abstract_members =
     [''inputs'', ''sensor'', ''test_forward'', ''train_forward'', ''export_forward'']"

text \<open>
  A subclass, as far as instantiation is concerned: the names it (or a class between it
  and the base) defines without the abstract marker.
\<close>

record concrete_class =
  variant_name :: string
  implemented :: "string list"

text \<open>
  \<^verbatim>\<open>abc.ABCMeta\<close> gives a class the set \<^verbatim>\<open>__abstractmethods__\<close> of the abstract
  names it has not overridden, and creating an object of a class where that set is not
  empty raises \<^verbatim>\<open>TypeError\<close> before \<^verbatim>\<open>__init__\<close> runs.
\<close>

definition abstractmethods :: "concrete_class \<Rightarrow> string list" where
  "abstractmethods c = filter (\<lambda>n. n \<notin> set (implemented c)) abstract_members"

text \<open>
  \<^verbatim>\<open>__init__\<close>: the layer's own initialiser puts it in training mode, then the two
  attributes of this class are set. The result is the attribute
  \<^verbatim>\<open>box_with_velocity\<close> and the new object.
\<close>

definition init :: "bool \<Rightarrow> bool \<times> layer_obj" where
  "init bwv = (bwv, \<lparr>in_export_mode = False, training = True\<rparr>)"

definition construct :: "concrete_class \<Rightarrow> bool \<Rightarrow> error + (bool \<times> layer_obj)" where
  "construct c bwv = (if abstractmethods c \<noteq> [] then Inl TypeError else Inr (init bwv))"

text \<open>The nodes of a module tree, the root first.\<close>

fun node_ids :: "layer \<Rightarrow> addr list" where
  "node_ids (Layer a subs) = a # concat (map node_ids subs)"

text \<open>
  The dict that the comprehension of \<^verbatim>\<open>input_spec\<close> builds when no call raises:
  one assignment for each entry, in order.
\<close>

abbreviation build ::
  "tensor_desc list \<Rightarrow> (string, input_spec_obj) dict \<Rightarrow> (string, input_spec_obj) dict" where
  "build es d \<equiv> fold (\<lambda>e d. dict_set (name e) (entry_spec e) d) es d"

section \<open>Properties\<close>

subsection \<open>The traversal of the module tree\<close>

text \<open>
  Listing the sublayers with the set of seen objects reaches exactly the nodes of the
  tree, each once.
\<close>

lemma fold_named_sublayers_set:
  assumes "\<And>c seen. c \<in> set subs \<Longrightarrow> set (named_sublayers c seen) = set seen \<union> set (node_ids c)"
  shows "set (fold named_sublayers subs seen) = set seen \<union> set (concat (map node_ids subs))"
  using assms
proof (induction subs arbitrary: seen)
  case Nil
  then show ?case by simp
next
  case (Cons c cs)
  have "set (fold named_sublayers cs (named_sublayers c seen)) =
        set (named_sublayers c seen) \<union> set (concat (map node_ids cs))"
    using Cons.IH Cons.prems by simp
  also have "set (named_sublayers c seen) = set seen \<union> set (node_ids c)"
    using Cons.prems by simp
  finally show ?case by (simp add: Un_assoc)
qed

lemma named_sublayers_set:
  "set (named_sublayers l seen) = set seen \<union> set (node_ids l)"
proof (induction l arbitrary: seen)
  case (Layer a subs)
  have "set (fold named_sublayers subs (if a \<in> set seen then seen else seen @ [a])) =
        set (if a \<in> set seen then seen else seen @ [a]) \<union> set (concat (map node_ids subs))"
    by (rule fold_named_sublayers_set) (use Layer.IH in blast)
  then show ?case by auto
qed

lemma sublayers_set: "set (sublayers l) = set (node_ids l)"
  by (simp add: sublayers_def named_sublayers_set)

lemma fold_named_sublayers_distinct:
  assumes "\<And>c seen. c \<in> set subs \<Longrightarrow> distinct seen \<Longrightarrow> distinct (named_sublayers c seen)"
  shows "distinct seen \<Longrightarrow> distinct (fold named_sublayers subs seen)"
  using assms by (induction subs arbitrary: seen) simp_all

lemma named_sublayers_distinct:
  "distinct seen \<Longrightarrow> distinct (named_sublayers l seen)"
proof (induction l arbitrary: seen)
  case (Layer a subs)
  have "distinct (if a \<in> set seen then seen else seen @ [a])"
    using Layer.prems by simp
  then have "distinct (fold named_sublayers subs (if a \<in> set seen then seen else seen @ [a]))"
    by (rule fold_named_sublayers_distinct[rotated]) (use Layer.IH in blast)
  then show ?case by simp
qed

lemma fold_set_attr:
  "fold (set_attr_in_export_mode mode) as h =
     (\<lambda>b. if b \<in> set as then (h b)\<lparr>in_export_mode := mode\<rparr> else h b)"
proof (induction as arbitrary: h)
  case Nil
  then show ?case by simp
next
  case (Cons a as)
  show ?case
    by (rule ext) (simp add: Cons.IH, simp add: set_attr_in_export_mode_def)
qed

lemma set_export_mode_heap:
  "heap (set_export_mode mode w) =
     (\<lambda>b. if b \<in> set (node_ids (root w)) then (heap w b)\<lparr>in_export_mode := mode\<rparr> else heap w b)"
  by (simp add: set_export_mode_def fold_set_attr sublayers_set)

lemma set_export_mode_root: "root (set_export_mode mode w) = root w"
  by (simp add: set_export_mode_def)

lemma set_export_mode_calls: "calls (set_export_mode mode w) = calls w"
  by (simp add: set_export_mode_def)

subsection \<open>Dicts built by assignment\<close>

lemma dict_set_keys:
  "map fst (dict_set k v d) = (if k \<in> fst ` set d then map fst d else map fst d @ [k])"
  by (induction d) force+

lemma dict_set_map_of: "map_of (dict_set k v d) = (map_of d)(k \<mapsto> v)"
  by (induction d) (auto simp add: fun_eq_iff)

lemma dict_set_distinct: "distinct (map fst d) \<Longrightarrow> distinct (map fst (dict_set k v d))"
  by (simp add: dict_set_keys)


lemma build_keys_set: "fst ` set (build es d) = fst ` set d \<union> name ` set es"
proof (induction es arbitrary: d)
  case Nil
  then show ?case by simp
next
  case (Cons e es)
  have "fst ` set (dict_set (name e) (entry_spec e) d) = insert (name e) (fst ` set d)"
    using dict_set_keys [of "name e" "entry_spec e" d]
    by (metis (no_types, lifting) Un_insert_right append_Nil2 insert_absorb list.set(2) list.set_map set_append)
  then show ?case using Cons.IH [of "dict_set (name e) (entry_spec e) d"]
    by simp
qed

lemma build_distinct: "distinct (map fst d) \<Longrightarrow> distinct (map fst (build es d))"
  by (induction es arbitrary: d) (simp_all add: dict_set_distinct)

lemma build_map_of:
  "map_of (build es d) n =
     (if n \<in> name ` set es
      then Some (entry_spec (last (filter (\<lambda>x. name x = n) es)))
      else map_of d n)"
proof (induction es arbitrary: d)
  case Nil
  then show ?case by simp
next
  case (Cons e es)
  have step: "build (e # es) d = build es (dict_set (name e) (entry_spec e) d)"
    by simp
  show ?case
  proof (cases "n \<in> name ` set es")
    case True
    then have "filter (\<lambda>x. name x = n) es \<noteq> []"
      by (auto simp add: filter_empty_conv)
    then show ?thesis using True by (simp add: step Cons.IH)
  next
    case False
    then have none: "filter (\<lambda>x. name x = n) es = []"
      by (auto simp add: filter_empty_conv)
    show ?thesis
    proof (cases "name e = n")
      case True
      then show ?thesis using False none by (simp add: step Cons.IH dict_set_map_of)
    next
      case differs: False
      then show ?thesis using False none
        by (auto simp add: step Cons.IH dict_set_map_of)
    qed
  qed
qed


lemma build_length: "distinct (map fst d) \<Longrightarrow> length (build es d) = card (fst ` set d \<union> name ` set es)"
proof -
  assume "distinct (map fst d)"
  then have "distinct (map fst (build es d))" by (rule build_distinct)
  then have "length (map fst (build es d)) = card (set (map fst (build es d)))"
    by (simp only: distinct_card)
  then show ?thesis by (simp add: build_keys_set)
qed


subsection \<open>The comprehension and its effect on the entries\<close>

lemma InputSpec_verify_idem: "InputSpec_verify (InputSpec_verify shp) = InputSpec_verify shp"
  by (induction shp) (simp_all add: InputSpec_verify_def)


lemma verified_idem: "verified (verified e) = verified e"
  by (simp add: verified_def InputSpec_verify_idem)


lemma verified_name: "name (verified e) = name e"
  by (simp add: verified_def)

lemma entry_spec_verified: "entry_spec (verified e) = entry_spec e"
  by (simp add: entry_spec_def verified_def InputSpec_def InputSpec_verify_idem)

lemma spec_data_accepted:
  "\<forall>e \<in> set es. spec_check pf (verified e) = None \<Longrightarrow>
   spec_data pf es d = (Inr (build es d), map verified es)"
  by (induction es arbitrary: d) (simp_all add: InputSpec_kwargs_def)

lemma spec_data_error:
  "fst (spec_data pf es d) = Inl err \<Longrightarrow> \<exists>e \<in> set es. spec_check pf (verified e) = Some err"
proof (induction es arbitrary: d)
  case Nil
  then show ?case by simp
next
  case (Cons e es)
  show ?case
  proof (cases "spec_check pf (verified e)")
    case None
    then have "fst (spec_data pf es (dict_set (name e) (entry_spec e) d)) = Inl err"
      using Cons.prems by (simp add: InputSpec_kwargs_def split: prod.splits)
    then show ?thesis using Cons.IH by auto
  next
    case (Some err')
    then show ?thesis using Cons.prems by (simp add: InputSpec_kwargs_def)
  qed
qed

lemma spec_data_result:
  "fst (spec_data pf es d) = Inr r \<Longrightarrow>
   r = build es d \<and> (\<forall>e \<in> set es. spec_check pf (verified e) = None)"
proof (induction es arbitrary: d)
  case Nil
  then show ?case by simp
next
  case (Cons e es)
  show ?case
  proof (cases "spec_check pf (verified e)")
    case None
    then have "fst (spec_data pf es (dict_set (name e) (entry_spec e) d)) = Inr r"
      using Cons.prems by (simp add: InputSpec_kwargs_def split: prod.splits)
    then show ?thesis using Cons.IH None by simp
  next
    case (Some err')
    then show ?thesis using Cons.prems by (simp add: InputSpec_kwargs_def)
  qed
qed


lemma spec_data_again:
  "fst (spec_data pf (snd (spec_data pf es d)) d) = fst (spec_data pf es d)"
proof (induction es arbitrary: d)
  case Nil
  then show ?case by simp
next
  case (Cons e es)
  show ?case
  proof (cases "spec_check pf (verified e)")
    case None
    obtain r es' where rest: "spec_data pf es (dict_set (name e) (entry_spec e) d) = (r, es')"
      by (cases "spec_data pf es (dict_set (name e) (entry_spec e) d)")
    have "fst (spec_data pf es' (dict_set (name e) (entry_spec e) d)) = r"
      using Cons.IH [of "dict_set (name e) (entry_spec e) d"] rest by simp
    then show ?thesis using None rest
      by (auto simp add: InputSpec_kwargs_def verified_idem verified_name entry_spec_verified
          split: prod.splits)
  next
    case (Some err')
    then show ?thesis by (simp add: InputSpec_kwargs_def verified_idem)
  qed
qed

lemma input_spec_fst: "fst (input_spec pf m) =
  (case fst (spec_data pf (inputs m) []) of Inl err \<Rightarrow> Inl err | Inr data \<Rightarrow> Inr [data])"
  by (simp add: input_spec_def split: prod.splits sum.splits)

lemma input_spec_snd: "snd (input_spec pf m) = snd (spec_data pf (inputs m) [])"
  by (simp add: input_spec_def split: prod.splits sum.splits)

lemma input_spec_again:
  "fst (input_spec pf (m\<lparr>inputs := snd (input_spec pf m)\<rparr>)) = fst (input_spec pf m)"
  by (simp add: input_spec_fst input_spec_snd spec_data_again)

subsection \<open>Calls made by the export\<close>

lemma invoke_calls: "calls (snd (invoke ext c w)) = calls w @ [c]"
  by (simp add: invoke_def split: prod.splits)

lemma invoke_result:
  "fst (invoke ext c w) = (case fst (ext c (root w, heap w)) of Some e \<Rightarrow> Inl e | None \<Rightarrow> Inr ())"
  by (simp add: invoke_def split: prod.splits)

lemma exporting_calls:
  "calls (snd (exporting body w)) = calls (snd (body (set_export_mode True w)))"
  by (simp add: exporting_def set_export_mode_calls split: prod.splits sum.splits)

lemma export_body_calls:
  "calls (snd (export_body pf ext m save_dir nm w)) =
     calls w @
       (case fst (input_spec pf m) of
          Inl e \<Rightarrow> []
        | Inr spec \<Rightarrow>
            ToStatic spec #
              (if fst (ext (ToStatic spec) (root w, heap w)) = None
               then [JitSave (path_join save_dir nm) [spec]] else []))"
proof (cases "fst (input_spec pf m)")
  case (Inl e)
  then show ?thesis by (simp add: export_body_def)
next
  case (Inr spec)
  obtain r w' where inv: "invoke ext (ToStatic spec) w = (r, w')"
    by (cases "invoke ext (ToStatic spec) w")
  have c: "calls w' = calls w @ [ToStatic spec]"
    using invoke_calls [of ext "ToStatic spec" w] inv by simp
  have r: "r = (case fst (ext (ToStatic spec) (root w, heap w)) of
                  Some e \<Rightarrow> Inl e | None \<Rightarrow> Inr ())"
    using invoke_result [of ext "ToStatic spec" w] inv by simp
  show ?thesis
  proof (cases "fst (ext (ToStatic spec) (root w, heap w))")
    case None
    then have "r = Inr ()" using r by simp
    then show ?thesis using Inr inv None c
      by (simp add: export_body_def invoke_calls)
  next
    case (Some e)
    then have "r = Inl e" using r by simp
    then show ?thesis using Inr inv Some c
      by (simp add: export_body_def)
  qed
qed

lemma complete_variant_constructed:
  "set abstract_members \<subseteq> set (implemented c) \<Longrightarrow>
   construct c bwv = Inr (bwv, \<lparr>in_export_mode = False, training = True\<rparr>)"
  by (auto simp add: construct_def abstractmethods_def init_def filter_empty_conv)

section \<open>The claims\<close>

subsection \<open>Forward dispatch\<close>

text \<open>
  C1. Every call of \<^verbatim>\<open>forward\<close> runs exactly one of the three forward methods and
  returns its result: the export method when \<^verbatim>\<open>in_export_mode\<close> is set, whatever
  \<^verbatim>\<open>training\<close> is; otherwise the training method when \<^verbatim>\<open>training\<close> is set;
  otherwise the test method. The tree and the store are left as they were.
\<close>

theorem forward_dispatch:
  "\<exists>p. calls (snd (forward m x w)) = calls w @ [p] \<and>
       (p = ExportForward \<or> p = TrainForward \<or> p = TestForward) \<and>
       (p = ExportForward) = in_export_mode (self_obj w) \<and>
       (p = TrainForward) = (\<not> in_export_mode (self_obj w) \<and> training (self_obj w)) \<and>
       (p = TestForward) = (\<not> in_export_mode (self_obj w) \<and> \<not> training (self_obj w)) \<and>
       fst (forward m x w) =
         (case p of ExportForward \<Rightarrow> export_forward m x
                  | TrainForward \<Rightarrow> train_forward m x
                  | _ \<Rightarrow> test_forward m x) \<and>
       root (snd (forward m x w)) = root w \<and> heap (snd (forward m x w)) = heap w"
  by (simp add: forward_def)

subsection \<open>Output description\<close>

text \<open>
  C2. \<^verbatim>\<open>outputs\<close> is a list of exactly three entries, in this order:
  \<^verbatim>\<open>box3d\<close> of dtype float32 and shape \<^verbatim>\<open>[-1, 7]\<close>, or \<^verbatim>\<open>[-1, 9]\<close> when
  \<^verbatim>\<open>box_with_velocity\<close> is set; \<^verbatim>\<open>label\<close> of dtype int32 and shape
  \<^verbatim>\<open>[-1]\<close>; \<^verbatim>\<open>confidence\<close> of dtype float32 and shape \<^verbatim>\<open>[-1]\<close>. Nothing
  of the model but \<^verbatim>\<open>box_with_velocity\<close> enters the result.
\<close>

theorem outputs_entries:
  "outputs m =
     [\<lparr>name = ''box3d'', dtype = ''float32'',
        shape = [-1, if box_with_velocity m then 9 else 7]\<rparr>,
      \<lparr>name = ''label'', dtype = ''int32'', shape = [-1]\<rparr>,
      \<lparr>name = ''confidence'', dtype = ''float32'', shape = [-1]\<rparr>]"
  by (simp add: outputs_def)

subsection \<open>The export flag\<close>

text \<open>
  C4. After \<^verbatim>\<open>set_export_mode(mode)\<close> every node of the module tree, the model
  itself included, has \<^verbatim>\<open>in_export_mode\<close> equal to \<^verbatim>\<open>mode\<close>, and the tree is
  the same; setting the flag and then clearing it leaves it false on every node.
\<close>

theorem set_export_mode_uniform:
  "root (set_export_mode mode w) = root w \<and>
   (\<forall>a \<in> set (node_ids (root w)). in_export_mode (heap (set_export_mode mode w) a) = mode) \<and>
   (\<forall>a \<in> set (node_ids (root w)).
      \<not> in_export_mode (heap (set_export_mode False (set_export_mode True w)) a))"
  by (simp add: set_export_mode_heap set_export_mode_root)

theorem set_export_mode_uniform_witness:
  "3 \<in> set (node_ids (root
     \<lparr>root = Layer 0 [Layer 1 [Layer 2 []], Layer 3 []],
      heap = (\<lambda>_. \<lparr>in_export_mode = False, training = True\<rparr>), calls = []\<rparr>)) \<and>
   in_export_mode (heap (set_export_mode True
     \<lparr>root = Layer 0 [Layer 1 [Layer 2 []], Layer 3 []],
      heap = (\<lambda>_. \<lparr>in_export_mode = False, training = True\<rparr>), calls = []\<rparr>) 3) \<and>
   \<not> in_export_mode (heap (set_export_mode False (set_export_mode True
     \<lparr>root = Layer 0 [Layer 1 [Layer 2 []], Layer 3 []],
      heap = (\<lambda>_. \<lparr>in_export_mode = False, training = True\<rparr>), calls = []\<rparr>)) 3)"
  using set_export_mode_uniform [of True
     "\<lparr>root = Layer 0 [Layer 1 [Layer 2 []], Layer 3 []],
      heap = (\<lambda>_. \<lparr>in_export_mode = False, training = True\<rparr>), calls = []\<rparr>"]
  by simp

text \<open>
  C5. When the body of the \<^verbatim>\<open>exporting\<close> scope returns normally, the scope returns
  the body's value and \<^verbatim>\<open>in_export_mode\<close> is false on every node of the module tree
  as the body left it.
\<close>

theorem exporting_normal_completion:
  assumes "body (set_export_mode True w) = (Inr v, w')"
  shows "fst (exporting body w) = Inr v \<and>
         root (snd (exporting body w)) = root w' \<and>
         (\<forall>a \<in> set (node_ids (root w')). \<not> in_export_mode (heap (snd (exporting body w)) a))"
  using assms by (simp add: exporting_def set_export_mode_heap set_export_mode_root)

theorem exporting_normal_completion_witness:
  "(\<lambda>w. (Inr () :: error + unit, w)) (set_export_mode True
     \<lparr>root = Layer 0 [Layer 1 [Layer 2 []], Layer 3 []],
      heap = (\<lambda>_. \<lparr>in_export_mode = False, training = True\<rparr>), calls = []\<rparr>) =
     (Inr (), set_export_mode True
     \<lparr>root = Layer 0 [Layer 1 [Layer 2 []], Layer 3 []],
      heap = (\<lambda>_. \<lparr>in_export_mode = False, training = True\<rparr>), calls = []\<rparr>) \<and>
   fst (exporting (\<lambda>w. (Inr () :: error + unit, w))
     \<lparr>root = Layer 0 [Layer 1 [Layer 2 []], Layer 3 []],
      heap = (\<lambda>_. \<lparr>in_export_mode = False, training = True\<rparr>), calls = []\<rparr>) = Inr () \<and>
   \<not> in_export_mode (heap (snd (exporting (\<lambda>w. (Inr () :: error + unit, w))
     \<lparr>root = Layer 0 [Layer 1 [Layer 2 []], Layer 3 []],
      heap = (\<lambda>_. \<lparr>in_export_mode = False, training = True\<rparr>), calls = []\<rparr>)) 2)"
  using exporting_normal_completion [of "\<lambda>w. (Inr () :: error + unit, w)"
     "\<lparr>root = Layer 0 [Layer 1 [Layer 2 []], Layer 3 []],
      heap = (\<lambda>_. \<lparr>in_export_mode = False, training = True\<rparr>), calls = []\<rparr>" "()"
     "set_export_mode True
     \<lparr>root = Layer 0 [Layer 1 [Layer 2 []], Layer 3 []],
      heap = (\<lambda>_. \<lparr>in_export_mode = False, training = True\<rparr>), calls = []\<rparr>"]
  by (simp add: set_export_mode_root)

text \<open>
  C3. The claim is that an exception raised inside the \<^verbatim>\<open>exporting\<close> scope still
  resets \<^verbatim>\<open>in_export_mode\<close>. In the code the reset follows the \<^verbatim>\<open>yield\<close>
  with no \<^verbatim>\<open>try ... finally\<close> around it, so a body that raises leaves the flag set
  on every node: here on a model with one sublayer, first for the scope alone, then for
  \<^verbatim>\<open>export\<close> with an exporter whose tracer raises.
\<close>

theorem exporting_raise_keeps_export_mode:
  "fst (exporting (\<lambda>w. (Inl (OtherError ''boom'') :: error + unit, w))
     \<lparr>root = Layer 0 [Layer 1 []],
      heap = (\<lambda>_. \<lparr>in_export_mode = False, training = False\<rparr>), calls = []\<rparr>)
     = Inl (OtherError ''boom'') \<and>
   in_export_mode (heap (snd (exporting (\<lambda>w. (Inl (OtherError ''boom'') :: error + unit, w))
     \<lparr>root = Layer 0 [Layer 1 []],
      heap = (\<lambda>_. \<lparr>in_export_mode = False, training = False\<rparr>), calls = []\<rparr>)) 0) \<and>
   in_export_mode (heap (snd (exporting (\<lambda>w. (Inl (OtherError ''boom'') :: error + unit, w))
     \<lparr>root = Layer 0 [Layer 1 []],
      heap = (\<lambda>_. \<lparr>in_export_mode = False, training = False\<rparr>), calls = []\<rparr>)) 1) \<and>
   fst (export
     \<lparr>str_lower = (\<lambda>s. if s = ''PointPillars'' then ''pointpillars'' else s),
      spec_check = (\<lambda>e. if dtype e = ''float32'' \<or> dtype e = ''int32'' then None
                          else Some TypeError)\<rparr>
     (\<lambda>c s. (Some (OtherError ''untraceable''), s))
     \<lparr>box_with_velocity = False, class_name = ''PointPillars'',
      inputs = [\<lparr>name = ''image'', dtype = ''float32'', shape = [-1, 3, 224, 224]\<rparr>],
      sensor = ''camera'', test_forward = id, train_forward = id,
      export_forward = (id :: nat \<Rightarrow> nat)\<rparr> ''out'' None
     \<lparr>root = Layer 0 [Layer 1 []],
      heap = (\<lambda>_. \<lparr>in_export_mode = False, training = False\<rparr>), calls = []\<rparr>)
     = Inl (OtherError ''untraceable'') \<and>
   in_export_mode (heap (snd (export
     \<lparr>str_lower = (\<lambda>s. if s = ''PointPillars'' then ''pointpillars'' else s),
      spec_check = (\<lambda>e. if dtype e = ''float32'' \<or> dtype e = ''int32'' then None
                          else Some TypeError)\<rparr>
     (\<lambda>c s. (Some (OtherError ''untraceable''), s))
     \<lparr>box_with_velocity = False, class_name = ''PointPillars'',
      inputs = [\<lparr>name = ''image'', dtype = ''float32'', shape = [-1, 3, 224, 224]\<rparr>],
      sensor = ''camera'', test_forward = id, train_forward = id,
      export_forward = (id :: nat \<Rightarrow> nat)\<rparr> ''out'' None
     \<lparr>root = Layer 0 [Layer 1 []],
      heap = (\<lambda>_. \<lparr>in_export_mode = False, training = False\<rparr>), calls = []\<rparr>)) 0)"
  by (simp add: exporting_def export_def export_body_def invoke_def set_export_mode_heap
      set_export_mode_root input_spec_def InputSpec_kwargs_def verified_def
      InputSpec_verify_def)

subsection \<open>The tracing specification\<close>




text \<open>
  C10. Names that repeat raise no error: an exception of \<^verbatim>\<open>input_spec\<close> comes
  from an entry that the framework's checks refuse, and when they accept every entry the
  call returns. The dict it returns has each name once; the value at the name of an entry
  is the descriptor of the last entry of \<^verbatim>\<open>inputs\<close> with that name; the dict has at
  most as many descriptors as \<^verbatim>\<open>inputs\<close> has entries, and fewer when two entries
  share a name.
\<close>

theorem input_spec_duplicate_names:
  "(case fst (input_spec pf m) of
      Inl err \<Rightarrow> \<exists>e \<in> set (inputs m). spec_check pf (verified e) = Some err
    | Inr r \<Rightarrow>
        \<exists>d. r = [d] \<and>
          distinct (map fst d) \<and>
          (\<forall>e \<in> set (inputs m).
             dict_get d (name e) =
               Some (entry_spec (last (filter (\<lambda>x. name x = name e) (inputs m))))) \<and>
          length d \<le> length (inputs m) \<and>
          (\<not> distinct (map name (inputs m)) \<longrightarrow> length d < length (inputs m))) \<and>
   ((\<forall>e \<in> set (inputs m). spec_check pf (verified e) = None) \<longrightarrow>
      (\<exists>r. fst (input_spec pf m) = Inr r))"
proof -
  let ?d = "build (inputs m) []"
  have dist: "distinct (map fst ?d)" by (rule build_distinct) simp
  have lastwins: "dict_get ?d (name e) =
            Some (entry_spec (last (filter (\<lambda>x. name x = name e) (inputs m))))"
    if "e \<in> set (inputs m)" for e
    using that by (simp add: dict_get_def build_map_of)
  have len: "length ?d = card (set (map name (inputs m)))"
    using build_length [of "[]" "inputs m"] by simp
  have le: "length ?d \<le> length (inputs m)"
    using len card_length [of "map name (inputs m)"] by simp
  have lt: "length ?d < length (inputs m)" if "\<not> distinct (map name (inputs m))"
  proof -
    have "card (set (map name (inputs m))) \<noteq> length (map name (inputs m))"
      using that card_distinct by blast
    then show ?thesis using le len by simp
  qed
  have returned: "\<exists>d. r = [d] \<and>
          distinct (map fst d) \<and>
          (\<forall>e \<in> set (inputs m).
             dict_get d (name e) =
               Some (entry_spec (last (filter (\<lambda>x. name x = name e) (inputs m))))) \<and>
          length d \<le> length (inputs m) \<and>
          (\<not> distinct (map name (inputs m)) \<longrightarrow> length d < length (inputs m))"
    if ret: "fst (input_spec pf m) = Inr r" for r
  proof -
    obtain data where data: "fst (spec_data pf (inputs m) []) = Inr data" and r: "r = [data]"
      using ret by (cases "fst (spec_data pf (inputs m) [])") (auto simp add: input_spec_fst)
    have "data = ?d" using spec_data_result [OF data] by simp
    then show ?thesis using r dist lastwins le lt by blast
  qed
  have raised: "\<exists>e \<in> set (inputs m). spec_check pf (verified e) = Some err"
    if "fst (input_spec pf m) = Inl err" for err
  proof -
    have "fst (spec_data pf (inputs m) []) = Inl err"
      using that by (cases "fst (spec_data pf (inputs m) [])") (auto simp add: input_spec_fst)
    then show ?thesis by (rule spec_data_error)
  qed
  have first: "case fst (input_spec pf m) of
      Inl err \<Rightarrow> \<exists>e \<in> set (inputs m). spec_check pf (verified e) = Some err
    | Inr r \<Rightarrow>
        \<exists>d. r = [d] \<and>
          distinct (map fst d) \<and>
          (\<forall>e \<in> set (inputs m).
             dict_get d (name e) =
               Some (entry_spec (last (filter (\<lambda>x. name x = name e) (inputs m))))) \<and>
          length d \<le> length (inputs m) \<and>
          (\<not> distinct (map name (inputs m)) \<longrightarrow> length d < length (inputs m))"
    using returned raised by (cases "fst (input_spec pf m)") simp_all
  have accepted: "\<exists>r. fst (input_spec pf m) = Inr r"
    if "\<forall>e \<in> set (inputs m). spec_check pf (verified e) = None"
    using spec_data_accepted [OF that, of "[]"] by (simp add: input_spec_def)
  show ?thesis using first accepted by blast
qed

theorem input_spec_duplicate_names_witness:
  "fst (input_spec
     \<lparr>str_lower = (\<lambda>s. if s = ''PointPillars'' then ''pointpillars'' else s),
      spec_check = (\<lambda>e. if dtype e = ''float32'' \<or> dtype e = ''int32'' then None
                          else Some TypeError)\<rparr>
     \<lparr>box_with_velocity = False, class_name = ''M'',
      inputs = [\<lparr>name = ''image'', dtype = ''float32'', shape = [-1, 3, 224, 224]\<rparr>,
                \<lparr>name = ''points'', dtype = ''float32'', shape = [-1, 4]\<rparr>,
                \<lparr>name = ''image'', dtype = ''int32'', shape = [-1]\<rparr>],
      sensor = ''camera'', test_forward = id, train_forward = id,
      export_forward = (id :: nat \<Rightarrow> nat)\<rparr>) =
     Inr [[(''image'', InputSpec [-1] ''int32'' (Some ''image'')),
           (''points'', InputSpec [-1, 4] ''float32'' (Some ''points''))]] \<and>
   \<not> distinct (map name (inputs
     \<lparr>box_with_velocity = False, class_name = ''M'',
      inputs = [\<lparr>name = ''image'', dtype = ''float32'', shape = [-1, 3, 224, 224]\<rparr>,
                \<lparr>name = ''points'', dtype = ''float32'', shape = [-1, 4]\<rparr>,
                \<lparr>name = ''image'', dtype = ''int32'', shape = [-1]\<rparr>],
      sensor = ''camera'', test_forward = id, train_forward = id,
      export_forward = (id :: nat \<Rightarrow> nat)\<rparr>)) \<and>
   length [(''image'', InputSpec [-1] ''int32'' (Some ''image'')),
           (''points'', InputSpec [-1, 4] ''float32'' (Some ''points''))] < length (inputs
     \<lparr>box_with_velocity = False, class_name = ''M'',
      inputs = [\<lparr>name = ''image'', dtype = ''float32'', shape = [-1, 3, 224, 224]\<rparr>,
                \<lparr>name = ''points'', dtype = ''float32'', shape = [-1, 4]\<rparr>,
                \<lparr>name = ''image'', dtype = ''int32'', shape = [-1]\<rparr>],
      sensor = ''camera'', test_forward = id, train_forward = id,
      export_forward = (id :: nat \<Rightarrow> nat)\<rparr>)"
  using input_spec_duplicate_names [where pf =
     "\<lparr>str_lower = (\<lambda>s. if s = ''PointPillars'' then ''pointpillars'' else s),
      spec_check = (\<lambda>e. if dtype e = ''float32'' \<or> dtype e = ''int32'' then None
                          else Some TypeError)\<rparr>"
     and m =
     "\<lparr>box_with_velocity = False, class_name = ''M'',
      inputs = [\<lparr>name = ''image'', dtype = ''float32'', shape = [-1, 3, 224, 224]\<rparr>,
                \<lparr>name = ''points'', dtype = ''float32'', shape = [-1, 4]\<rparr>,
                \<lparr>name = ''image'', dtype = ''int32'', shape = [-1]\<rparr>],
      sensor = ''camera'', test_forward = id, train_forward = id,
      export_forward = (id :: nat \<Rightarrow> nat)\<rparr>"]
  by (simp add: input_spec_def InputSpec_kwargs_def entry_spec_def verified_def
      InputSpec_verify_def)

subsection \<open>Export\<close>

text \<open>
  C7, as amended. \<^verbatim>\<open>save_name\<close> is what \<^verbatim>\<open>str.lower\<close> makes of the class
  name. \<^verbatim>\<open>export\<close> takes as file name the \<^verbatim>\<open>name\<close> argument when it is a
  non-empty string, and \<^verbatim>\<open>save_name\<close> when the argument is omitted, \<^verbatim>\<open>None\<close> or
  the empty string; when \<^verbatim>\<open>input_spec\<close> and the tracer return, the last call of the
  export is the serializer's, with the path \<^verbatim>\<open>os.path.join(save_dir, name)\<close> of that
  file name.
\<close>

theorem export_name_resolution:
  "save_name pf m = str_lower pf (class_name m) \<and>
   resolve_name pf m None = save_name pf m \<and>
   resolve_name pf m (Some []) = save_name pf m \<and>
   (n \<noteq> [] \<longrightarrow> resolve_name pf m (Some n) = n) \<and>
   (fst (input_spec pf m) = Inr spec \<and>
    fst (ext (ToStatic spec) (root w, heap (set_export_mode True w))) = None \<longrightarrow>
      last (calls (snd (export pf ext m save_dir name_arg w))) =
        JitSave (path_join save_dir (resolve_name pf m name_arg)) [spec])"
proof -
  have saved: "fst (input_spec pf m) = Inr spec \<and>
      fst (ext (ToStatic spec) (root w, heap (set_export_mode True w))) = None \<longrightarrow>
      last (calls (snd (export pf ext m save_dir name_arg w))) =
        JitSave (path_join save_dir (resolve_name pf m name_arg)) [spec]"
    by (simp add: export_def exporting_calls export_body_calls set_export_mode_calls
        set_export_mode_root)
  show ?thesis using saved
    by (simp add: save_name_def resolve_name_def)
qed

theorem export_name_resolution_witness:
  "resolve_name
     \<lparr>str_lower = (\<lambda>s. if s = ''PointPillars'' then ''pointpillars'' else s),
      spec_check = (\<lambda>e. if dtype e = ''float32'' \<or> dtype e = ''int32'' then None
                          else Some TypeError)\<rparr>
     \<lparr>box_with_velocity = False, class_name = ''PointPillars'',
      inputs = [\<lparr>name = ''image'', dtype = ''float32'', shape = [-1, 3, 224, 224]\<rparr>],
      sensor = ''camera'', test_forward = id, train_forward = id,
      export_forward = (id :: nat \<Rightarrow> nat)\<rparr> (Some ''mono3d'') = ''mono3d'' \<and>
   save_name
     \<lparr>str_lower = (\<lambda>s. if s = ''PointPillars'' then ''pointpillars'' else s),
      spec_check = (\<lambda>e. if dtype e = ''float32'' \<or> dtype e = ''int32'' then None
                          else Some TypeError)\<rparr>
     \<lparr>box_with_velocity = False, class_name = ''PointPillars'',
      inputs = [\<lparr>name = ''image'', dtype = ''float32'', shape = [-1, 3, 224, 224]\<rparr>],
      sensor = ''camera'', test_forward = id, train_forward = id,
      export_forward = (id :: nat \<Rightarrow> nat)\<rparr> = ''pointpillars'' \<and>
   last (calls (snd (export
     \<lparr>str_lower = (\<lambda>s. if s = ''PointPillars'' then ''pointpillars'' else s),
      spec_check = (\<lambda>e. if dtype e = ''float32'' \<or> dtype e = ''int32'' then None
                          else Some TypeError)\<rparr>
     (\<lambda>c s. (None, s))
     \<lparr>box_with_velocity = False, class_name = ''PointPillars'',
      inputs = [\<lparr>name = ''image'', dtype = ''float32'', shape = [-1, 3, 224, 224]\<rparr>],
      sensor = ''camera'', test_forward = id, train_forward = id,
      export_forward = (id :: nat \<Rightarrow> nat)\<rparr> ''out'' None
     \<lparr>root = Layer 0 [Layer 1 [Layer 2 []], Layer 3 []],
      heap = (\<lambda>_. \<lparr>in_export_mode = False, training = True\<rparr>), calls = []\<rparr>))) =
     JitSave ''out/pointpillars''
       [[[(''image'', InputSpec [-1, 3, 224, 224] ''float32'' (Some ''image''))]]]"
  using export_name_resolution [where pf =
     "\<lparr>str_lower = (\<lambda>s. if s = ''PointPillars'' then ''pointpillars'' else s),
      spec_check = (\<lambda>e. if dtype e = ''float32'' \<or> dtype e = ''int32'' then None
                          else Some TypeError)\<rparr>"
     and m =
     "\<lparr>box_with_velocity = False, class_name = ''PointPillars'',
      inputs = [\<lparr>name = ''image'', dtype = ''float32'', shape = [-1, 3, 224, 224]\<rparr>],
      sensor = ''camera'', test_forward = id, train_forward = id,
      export_forward = (id :: nat \<Rightarrow> nat)\<rparr>"
     and n = "''mono3d''"
     and spec = "[[(''image'', InputSpec [-1, 3, 224, 224] ''float32'' (Some ''image''))]]"
     and ext = "\<lambda>c s. (None, s)"
     and w =
     "\<lparr>root = Layer 0 [Layer 1 [Layer 2 []], Layer 3 []],
      heap = (\<lambda>_. \<lparr>in_export_mode = False, training = True\<rparr>), calls = []\<rparr>"
     and save_dir = "''out''" and name_arg = None]
  by (simp add: resolve_name_def save_name_def path_join_def
      input_spec_def InputSpec_kwargs_def entry_spec_def verified_def InputSpec_verify_def)

text \<open>
  C7, as stated, fails when the \<^verbatim>\<open>name\<close> argument is the empty string: the
  argument is given, and the export saves under \<^verbatim>\<open>save_name\<close>, not under it.
\<close>

theorem export_empty_name_counterexample:
  "resolve_name
     \<lparr>str_lower = (\<lambda>s. if s = ''PointPillars'' then ''pointpillars'' else s),
      spec_check = (\<lambda>e. if dtype e = ''float32'' \<or> dtype e = ''int32'' then None
                          else Some TypeError)\<rparr>
     \<lparr>box_with_velocity = False, class_name = ''PointPillars'',
      inputs = [\<lparr>name = ''image'', dtype = ''float32'', shape = [-1, 3, 224, 224]\<rparr>],
      sensor = ''camera'', test_forward = id, train_forward = id,
      export_forward = (id :: nat \<Rightarrow> nat)\<rparr> (Some '''') \<noteq> '''' \<and>
   last (calls (snd (export
     \<lparr>str_lower = (\<lambda>s. if s = ''PointPillars'' then ''pointpillars'' else s),
      spec_check = (\<lambda>e. if dtype e = ''float32'' \<or> dtype e = ''int32'' then None
                          else Some TypeError)\<rparr>
     (\<lambda>c s. (None, s))
     \<lparr>box_with_velocity = False, class_name = ''PointPillars'',
      inputs = [\<lparr>name = ''image'', dtype = ''float32'', shape = [-1, 3, 224, 224]\<rparr>],
      sensor = ''camera'', test_forward = id, train_forward = id,
      export_forward = (id :: nat \<Rightarrow> nat)\<rparr> ''out'' (Some '''')
     \<lparr>root = Layer 0 [Layer 1 [Layer 2 []], Layer 3 []],
      heap = (\<lambda>_. \<lparr>in_export_mode = False, training = True\<rparr>), calls = []\<rparr>))) \<noteq>
     JitSave (path_join ''out'' '''')
       [[[(''image'', InputSpec [-1, 3, 224, 224] ''float32'' (Some ''image''))]]]"
  by (simp add: export_def exporting_calls export_body_calls set_export_mode_calls
      resolve_name_def save_name_def path_join_def
      input_spec_def InputSpec_kwargs_def entry_spec_def verified_def InputSpec_verify_def)

text \<open>
  C9. The export calls the tracer with \<^verbatim>\<open>input_spec\<close>, a list of one dict, and then,
  unless the tracer raised, the serializer with \<^verbatim>\<open>[input_spec]\<close>, a list whose one
  element is that list; it makes no other call. When \<^verbatim>\<open>input_spec\<close> itself raises,
  the export raises the same and has called neither.
\<close>

theorem export_collaborator_arguments:
  "(case fst (input_spec pf m) of
      Inl e \<Rightarrow>
        calls (snd (export pf ext m save_dir name_arg w)) = calls w \<and>
        fst (export pf ext m save_dir name_arg w) = Inl e
    | Inr spec \<Rightarrow>
        calls (snd (export pf ext m save_dir name_arg w)) =
          calls w @ ToStatic spec #
            (if fst (ext (ToStatic spec) (root w, heap (set_export_mode True w))) = None
             then [JitSave (path_join save_dir (resolve_name pf m name_arg)) [spec]]
             else []) \<and>
        length spec = 1 \<and>
        [spec] \<noteq> [] \<and> hd [spec] = spec)"
proof (cases "fst (input_spec pf m)")
  case (Inl e)
  then show ?thesis
    by (simp add: export_def exporting_def export_body_def set_export_mode_calls)
next
  case (Inr spec)
  then have "length spec = 1"
    by (cases "fst (spec_data pf (inputs m) [])") (auto simp add: input_spec_fst)
  then show ?thesis using Inr
    by (simp add: export_def exporting_calls export_body_calls set_export_mode_calls
        set_export_mode_root)
qed

theorem export_collaborator_arguments_witness:
  "calls (snd (export
     \<lparr>str_lower = (\<lambda>s. if s = ''PointPillars'' then ''pointpillars'' else s),
      spec_check = (\<lambda>e. if dtype e = ''float32'' \<or> dtype e = ''int32'' then None
                          else Some TypeError)\<rparr>
     (\<lambda>c s. (None, s))
     \<lparr>box_with_velocity = False, class_name = ''PointPillars'',
      inputs = [\<lparr>name = ''image'', dtype = ''float32'', shape = [-1, 3, 224, 224]\<rparr>],
      sensor = ''camera'', test_forward = id, train_forward = id,
      export_forward = (id :: nat \<Rightarrow> nat)\<rparr> ''out'' None
     \<lparr>root = Layer 0 [Layer 1 [Layer 2 []], Layer 3 []],
      heap = (\<lambda>_. \<lparr>in_export_mode = False, training = True\<rparr>), calls = []\<rparr>)) =
     [ToStatic [[(''image'', InputSpec [-1, 3, 224, 224] ''float32'' (Some ''image''))]],
      JitSave ''out/pointpillars''
        [[[(''image'', InputSpec [-1, 3, 224, 224] ''float32'' (Some ''image''))]]]]"
  using export_collaborator_arguments [where pf =
     "\<lparr>str_lower = (\<lambda>s. if s = ''PointPillars'' then ''pointpillars'' else s),
      spec_check = (\<lambda>e. if dtype e = ''float32'' \<or> dtype e = ''int32'' then None
                          else Some TypeError)\<rparr>"
     and m =
     "\<lparr>box_with_velocity = False, class_name = ''PointPillars'',
      inputs = [\<lparr>name = ''image'', dtype = ''float32'', shape = [-1, 3, 224, 224]\<rparr>],
      sensor = ''camera'', test_forward = id, train_forward = id,
      export_forward = (id :: nat \<Rightarrow> nat)\<rparr>"
     and ext = "\<lambda>c s. (None, s)" and save_dir = "''out''" and name_arg = None
     and w =
     "\<lparr>root = Layer 0 [Layer 1 [Layer 2 []], Layer 3 []],
      heap = (\<lambda>_. \<lparr>in_export_mode = False, training = True\<rparr>), calls = []\<rparr>"]
  by (simp add: resolve_name_def save_name_def path_join_def
      input_spec_def InputSpec_kwargs_def entry_spec_def verified_def InputSpec_verify_def)

subsection \<open>Abstract members\<close>

text \<open>
  C8. A class that leaves one of \<^verbatim>\<open>inputs\<close>, \<^verbatim>\<open>sensor\<close>,
  \<^verbatim>\<open>test_forward\<close>, \<^verbatim>\<open>train_forward\<close>, \<^verbatim>\<open>export_forward\<close> without an
  implementation cannot be instantiated: the construction raises \<^verbatim>\<open>TypeError\<close> and
  yields no object.
\<close>

theorem incomplete_variant_rejected:
  assumes "n \<in> set [''inputs'', ''sensor'', ''test_forward'', ''train_forward'', ''export_forward'']"
    and "n \<notin> set (implemented c)"
  shows "construct c bwv = Inl TypeError"
proof -
  have "n \<in> set abstract_members"
    using assms(1) by (simp add: abstract_members_def)
  then have "n \<in> set (abstractmethods c)"
    using assms(2) by (simp add: abstractmethods_def)
  then have "abstractmethods c \<noteq> []" by auto
  then show ?thesis by (simp add: construct_def)
qed

theorem incomplete_variant_rejected_witness:
  "''export_forward'' \<in>
     set [''inputs'', ''sensor'', ''test_forward'', ''train_forward'', ''export_forward''] \<and>
   ''export_forward'' \<notin> set [''inputs'', ''sensor'', ''test_forward'', ''train_forward''] \<and>
   construct \<lparr>variant_name = ''Half'',
               implemented = [''inputs'', ''sensor'', ''test_forward'', ''train_forward'']\<rparr>
     False = Inl TypeError"
  using incomplete_variant_rejected [of "''export_forward''"
     "\<lparr>variant_name = ''Half'',
       implemented = [''inputs'', ''sensor'', ''test_forward'', ''train_forward'']\<rparr>" False]
  by simp

end
